theory Spec2Isabelle
  imports Main
begin

section \<open>Values of the Kubernetes API that operations.go handles\<close>

text \<open>
  The subscriber's \<^verbatim>\<open>pkg/k8s/operations.go\<close> talks to a cluster through three clients:
  a typed clientset (config maps), a discovery client (the API catalog) and a dynamic
  client (schema-less objects). The clients live outside the file, so they are parameters
  of the model; what the file itself does with their answers is translated branch by
  branch.

  A Go \<^verbatim>\<open>error\<close> is \<open>error option\<close> (\<open>None\<close> is \<^verbatim>\<open>nil\<close>); a pointer result that may be
  \<^verbatim>\<open>nil\<close> is an \<open>option\<close> too. A run-time panic is a value of its own, so that a crash is
  never mistaken for a returned error.
\<close>

datatype StatusReason =
    StatusReasonUnknown
  | StatusReasonNotFound
  | StatusReasonAlreadyExists
  | StatusReasonForbidden
  | StatusReasonInvalid
  | StatusReasonConflict
  | StatusReasonTimeout

text \<open>
  An error is either a status error of the API server, with its reason and message, or
  a plain error made by \<^verbatim>\<open>fmt.Errorf\<close> (or by a library below the API).
\<close>

datatype error = StatusError StatusReason string | Errorf string

fun ReasonForError :: "error option \<Rightarrow> StatusReason" where
  "ReasonForError None = StatusReasonUnknown"
| "ReasonForError (Some (StatusError r msg)) = r"
| "ReasonForError (Some (Errorf msg)) = StatusReasonUnknown"

definition IsNotFound :: "error option \<Rightarrow> bool" where
  "IsNotFound err = (ReasonForError err = StatusReasonNotFound)"

definition IsAlreadyExists :: "error option \<Rightarrow> bool" where
  "IsAlreadyExists err = (ReasonForError err = StatusReasonAlreadyExists)"

text \<open>Indexing a Go map of strings: a missing key reads as the empty string.\<close>

definition map_index :: "(string \<times> string) list \<Rightarrow> string \<Rightarrow> string" where
  "map_index m k = (case map_of m k of None \<Rightarrow> [] | Some v \<Rightarrow> v)"

text \<open>
  \<^verbatim>\<open>unstructured.Unstructured\<close>: the fields the file reads or writes through accessors
  (\<^verbatim>\<open>GetKind\<close>, \<^verbatim>\<open>GetName\<close>/\<^verbatim>\<open>SetName\<close>, \<^verbatim>\<open>GetLabels\<close>,
  \<^verbatim>\<open>GetResourceVersion\<close>/\<^verbatim>\<open>SetResourceVersion\<close>); everything else is opaque content.
  An absent string field reads as the empty string, as the accessors do.
\<close>

record Unstructured =
  Kind :: string
  APIVersion :: string
  Name :: string
  Labels :: "(string \<times> string) list"
  ResourceVersion :: string
  Content :: string

text \<open>\<^verbatim>\<open>&unstructured.Unstructured{}\<close>, the empty object.\<close>

definition empty_Unstructured :: Unstructured where
  "empty_Unstructured =
     \<lparr>Kind = [], APIVersion = [], Name = [], Labels = [], ResourceVersion = [], Content = []\<rparr>"

text \<open>Group, version and kind; group, version and plural resource name.\<close>

type_synonym GroupVersionKind = "string \<times> string \<times> string"
type_synonym GroupVersionResource = "string \<times> string \<times> string"

datatype RESTScopeName = RESTScopeNameNamespace | RESTScopeNameRoot

record RESTMapping =
  Resource :: GroupVersionResource
  Scope :: RESTScopeName

text \<open>
  \<^verbatim>\<open>dynamic.ResourceInterface\<close>: a resource collection, bound to a namespace
  (\<^verbatim>\<open>dynamicClient.Resource(r).Namespace(ns)\<close>) or not (\<^verbatim>\<open>dynamicClient.Resource(r)\<close>).
\<close>

datatype ResourceInterface = ResourceClient GroupVersionResource "string option"

text \<open>
  The dynamic client's five requests against a cluster of type \<open>'c\<close>. Each answers with
  an error or a result and leaves the cluster in a new state. The file reads the result of
  these calls only when the error is \<^verbatim>\<open>nil\<close>, so an answer is a sum.
\<close>

record 'c DynamicClient =
  Create :: "ResourceInterface \<Rightarrow> Unstructured \<Rightarrow> 'c \<Rightarrow> (error + Unstructured) \<times> 'c"
  Get :: "ResourceInterface \<Rightarrow> string \<Rightarrow> 'c \<Rightarrow> (error + Unstructured) \<times> 'c"
  Update :: "ResourceInterface \<Rightarrow> Unstructured \<Rightarrow> 'c \<Rightarrow> (error + Unstructured) \<times> 'c"
  Delete :: "ResourceInterface \<Rightarrow> string \<Rightarrow> 'c \<Rightarrow> error option \<times> 'c"
  List :: "ResourceInterface \<Rightarrow> string \<Rightarrow> 'c \<Rightarrow> (error + Unstructured list) \<times> 'c"

text \<open>The discovery client: one query of the cluster's API catalog for a kind.\<close>

type_synonym 'c DiscoveryClient = "GroupVersionKind \<Rightarrow> 'c \<Rightarrow> (error + RESTMapping) \<times> 'c"

text \<open>The requests that reach the cluster, in the order they are sent.\<close>

datatype request =
    DiscoveryRequest GroupVersionKind
  | ListRequest ResourceInterface string
  | CreateRequest ResourceInterface Unstructured
  | GetRequest ResourceInterface string
  | UpdateRequest ResourceInterface Unstructured
  | DeleteRequest ResourceInterface string

datatype panic = NilPointerDereference | IndexOutOfRange

datatype 'a outcome = Return 'a | Panic panic

text \<open>
  The state a call runs in: the package variable \<^verbatim>\<open>dr\<close> (\<^verbatim>\<open>nil\<close> until
  \<^verbatim>\<open>ClusterOperations\<close> assigns it), the cluster, the requests sent so far and the lines
  written to the log.
\<close>

record 'c process =
  dr :: "ResourceInterface option"
  cluster :: 'c
  requests :: "request list"
  logs :: "string list"

definition log_Println :: "string \<Rightarrow> 'c process \<Rightarrow> 'c process" where
  "log_Println line st = st\<lparr>logs := logs st @ [line]\<rparr>"

section \<open>Calls through the package variable dr\<close>

text \<open>
  \<^verbatim>\<open>dr.Create(obj, ...)\<close> and its four siblings: the request goes to the handle stored in
  \<^verbatim>\<open>dr\<close> and is recorded. A call on a \<^verbatim>\<open>nil\<close> interface panics: the result is \<open>None\<close>.
\<close>

definition dr_Create ::
  "'c DynamicClient \<Rightarrow> Unstructured \<Rightarrow> 'c process \<Rightarrow> ((error + Unstructured) \<times> 'c process) option" where
  "dr_Create client obj st =
     (case dr st of
        None \<Rightarrow> None
      | Some h \<Rightarrow>
          (case Create client h obj (cluster st) of
             (res, c) \<Rightarrow> Some (res, st\<lparr>cluster := c, requests := requests st @ [CreateRequest h obj]\<rparr>)))"

definition dr_Get ::
  "'c DynamicClient \<Rightarrow> string \<Rightarrow> 'c process \<Rightarrow> ((error + Unstructured) \<times> 'c process) option" where
  "dr_Get client name st =
     (case dr st of
        None \<Rightarrow> None
      | Some h \<Rightarrow>
          (case Get client h name (cluster st) of
             (res, c) \<Rightarrow> Some (res, st\<lparr>cluster := c, requests := requests st @ [GetRequest h name]\<rparr>)))"

definition dr_Update ::
  "'c DynamicClient \<Rightarrow> Unstructured \<Rightarrow> 'c process \<Rightarrow> ((error + Unstructured) \<times> 'c process) option" where
  "dr_Update client obj st =
     (case dr st of
        None \<Rightarrow> None
      | Some h \<Rightarrow>
          (case Update client h obj (cluster st) of
             (res, c) \<Rightarrow> Some (res, st\<lparr>cluster := c, requests := requests st @ [UpdateRequest h obj]\<rparr>)))"

definition dr_Delete ::
  "'c DynamicClient \<Rightarrow> string \<Rightarrow> 'c process \<Rightarrow> (error option \<times> 'c process) option" where
  "dr_Delete client name st =
     (case dr st of
        None \<Rightarrow> None
      | Some h \<Rightarrow>
          (case Delete client h name (cluster st) of
             (err, c) \<Rightarrow> Some (err, st\<lparr>cluster := c, requests := requests st @ [DeleteRequest h name]\<rparr>)))"

definition dr_List ::
  "'c DynamicClient \<Rightarrow> string \<Rightarrow> 'c process \<Rightarrow> ((error + Unstructured list) \<times> 'c process) option" where
  "dr_List client selector st =
     (case dr st of
        None \<Rightarrow> None
      | Some h \<Rightarrow>
          (case List client h selector (cluster st) of
             (res, c) \<Rightarrow> Some (res, st\<lparr>cluster := c, requests := requests st @ [ListRequest h selector]\<rparr>)))"

section \<open>applyRequest\<close>

text \<open>
  The four verbs are compared as strings, in the order create, update, delete, get; any
  other string falls through to the \<^verbatim>\<open>fmt.Errorf("err: %v\n", "Invalid Request")\<close> at the
  end. The result is Go's pair of a pointer and an error.
\<close>

definition InvalidRequest :: error where
  "InvalidRequest = Errorf (''err: Invalid Request'' @ [CHR 0x0A])"

definition applyRequest ::
  "'c DynamicClient \<Rightarrow> string \<Rightarrow> Unstructured \<Rightarrow> 'c process
     \<Rightarrow> (Unstructured option \<times> error option) outcome \<times> 'c process" where
  "applyRequest client requestType obj st =
     (if requestType = ''create'' then
        (case dr_Create client obj st of
           None \<Rightarrow> (Panic NilPointerDereference, st)
         | Some (Inl err, st1) \<Rightarrow>
             if IsAlreadyExists (Some err)
             then (Return (None, None), log_Println ''Already exists'' st1)
             else (Return (None, Some err), st1)
         | Some (Inr response, st1) \<Rightarrow>
             (Return (Some response, None), log_Println ''Resource successfully created'' st1))
      else if requestType = ''update'' then
        (case dr_Get client (Name obj) st of
           None \<Rightarrow> (Panic NilPointerDereference, st)
         | Some (Inl err, st1) \<Rightarrow>
             if IsNotFound (Some err)
             then (Return (None, None), log_Println (Name obj @ '' not found'') st1)
             else (Return (None, Some err), st1)
         | Some (Inr getObj, st1) \<Rightarrow>
             (case dr_Update client (obj\<lparr>ResourceVersion := ResourceVersion getObj\<rparr>) st1 of
                None \<Rightarrow> (Panic NilPointerDereference, st1)
              | Some (Inl err, st2) \<Rightarrow> (Return (None, Some err), st2)
              | Some (Inr response, st2) \<Rightarrow>
                  (Return (Some response, None), log_Println ''Resource successfully updated'' st2)))
      else if requestType = ''delete'' then
        (case dr_Delete client (Name obj) st of
           None \<Rightarrow> (Panic NilPointerDereference, st)
         | Some (Some err, st1) \<Rightarrow>
             if IsNotFound (Some err)
             then (Return (None, None), log_Println (Name obj @ '' not found'') st1)
             else (Return (None, Some err), st1)
         | Some (None, st1) \<Rightarrow>
             (Return (Some empty_Unstructured, None), log_Println ''Resource successfully deleted'' st1))
      else if requestType = ''get'' then
        (case dr_Get client (Name obj) st of
           None \<Rightarrow> (Panic NilPointerDereference, st)
         | Some (Inl err, st1) \<Rightarrow>
             if IsNotFound (Some err)
             then (Return (None, None), log_Println (Name obj @ '' not found'') st1)
             else (Return (None, Some err), st1)
         | Some (Inr response, st1) \<Rightarrow>
             (Return (Some response, None), log_Println ''Resource successfully retrieved'' st1))
      else (Return (None, Some InvalidRequest), st))"

section \<open>Type resolution\<close>

text \<open>
  \<^verbatim>\<open>memory.NewMemCacheClient(discoveryClient)\<close> wraps the discovery client in a new
  in-memory cache, which holds no entry yet. The cache is a local value of the call that
  makes it.
\<close>

type_synonym MemCache = "(GroupVersionKind \<times> RESTMapping) list"

definition NewMemCacheClient :: MemCache where
  "NewMemCacheClient = []"

text \<open>
  Modelled from the spec: the lookup of the REST mapper over the discovery cache
  (\<^verbatim>\<open>mapper.RESTMapping\<close> of \<^verbatim>\<open>restmapper.NewDeferredDiscoveryRESTMapper\<close>) is client-go
  library code, absent from the repository. Following the spec's type resolver: the cache
  is consulted by kind and version; on a miss the cluster's API catalog is queried once
  and, when the query succeeds, the cache is populated. An error of the query (an unknown
  kind among them) is handed back as it is.
\<close>

definition mapper_RESTMapping ::
  "'c DiscoveryClient \<Rightarrow> MemCache \<Rightarrow> GroupVersionKind \<Rightarrow> 'c process
     \<Rightarrow> (error + RESTMapping) \<times> MemCache \<times> 'c process" where
  "mapper_RESTMapping discoveryClient cache gvk st =
     (case map_of cache gvk of
        Some mapping \<Rightarrow> (Inr mapping, cache, st)
      | None \<Rightarrow>
          (case discoveryClient gvk (cluster st) of
             (res, c) \<Rightarrow>
               let st1 = st\<lparr>cluster := c, requests := requests st @ [DiscoveryRequest gvk]\<rparr> in
               (case res of
                  Inl err \<Rightarrow> (Inl err, cache, st1)
                | Inr mapping \<Rightarrow> (Inr mapping, (gvk, mapping) # cache, st1))))"

section \<open>ClusterOperations\<close>

text \<open>
  What the function calls and the file does not define: the JSON-to-YAML converter, the
  decoder of a YAML manifest into an object and its group, version and kind, and the
  function of the same package that builds the discovery and dynamic clients.
\<close>

record 'c environment =
  JSONToYAML :: "string \<Rightarrow> error + string"
  Decode :: "string \<Rightarrow> error + (Unstructured \<times> GroupVersionKind)"
  GetDynamicAndDiscoveryClient :: "error + ('c DiscoveryClient \<times> 'c DynamicClient)"

text \<open>
  The steps of \<^verbatim>\<open>ClusterOperations\<close> in the source's order: convert, get the clients, make
  the mapper over a new cache, decode, find the mapping, assign \<^verbatim>\<open>dr\<close> by the mapping's
  scope, for the kinds \<^verbatim>\<open>CronWorkflow\<close> and \<^verbatim>\<open>Workflow\<close> list by the \<^verbatim>\<open>workflow_id\<close> label
  and take the name of \<^verbatim>\<open>pods.Items[0]\<close>, then \<^verbatim>\<open>applyRequest\<close>. A list error returns
  \<^verbatim>\<open>nil, nil\<close>; \<^verbatim>\<open>Items[0]\<close> of an empty list panics.
\<close>

definition ClusterOperations ::
  "'c environment \<Rightarrow> string \<Rightarrow> string \<Rightarrow> string \<Rightarrow> 'c process
     \<Rightarrow> (Unstructured option \<times> error option) outcome \<times> 'c process" where
  "ClusterOperations env manifest requestType namespace st =
     (case JSONToYAML env manifest of
        Inl err \<Rightarrow> (Return (None, Some err), st)
      | Inr yamlStr \<Rightarrow>
     (case GetDynamicAndDiscoveryClient env of
        Inl err \<Rightarrow> (Return (None, Some err), st)
      | Inr (discoveryClient, dynamicClient) \<Rightarrow>
     (case Decode env yamlStr of
        Inl err \<Rightarrow> (Return (None, Some err), st)
      | Inr (obj, gvk) \<Rightarrow>
     (case mapper_RESTMapping discoveryClient NewMemCacheClient gvk st of
        (Inl err, cache, st1) \<Rightarrow> (Return (None, Some err), st1)
      | (Inr mapping, cache, st1) \<Rightarrow>
          let st2 =
                (if Scope mapping = RESTScopeNameNamespace
                 then st1\<lparr>dr := Some (ResourceClient (Resource mapping) (Some namespace))\<rparr>
                 else st1\<lparr>dr := Some (ResourceClient (Resource mapping) None)\<rparr>)
          in
          if Kind obj = ''CronWorkflow'' \<or> Kind obj = ''Workflow'' then
            (case dr_List dynamicClient (map_index (Labels obj) ''workflow_id'') st2 of
               None \<Rightarrow> (Panic NilPointerDereference, st2)
             | Some (Inl err, st3) \<Rightarrow> (Return (None, None), st3)
             | Some (Inr pods, st3) \<Rightarrow>
                 (case pods of
                    [] \<Rightarrow> (Panic IndexOutOfRange, st3)
                  | item # items \<Rightarrow>
                      applyRequest dynamicClient requestType (obj\<lparr>Name := Name item\<rparr>) st3))
          else applyRequest dynamicClient requestType obj st2))))"

section \<open>IsClusterConfirmed\<close>

text \<open>
  The function reads the config map \<^verbatim>\<open>litmus-portal-config\<close> of the agent's namespace
  through the typed clientset. What it calls and the file does not define are parameters:
  \<^verbatim>\<open>GetGenericK8sClient\<close> (an error, or a clientset, here its
  \<^verbatim>\<open>CoreV1().ConfigMaps(ns).Get(name)\<close>) and the package variable \<^verbatim>\<open>AgentNamespace\<close>, read
  from the process environment.

  The typed client's \<^verbatim>\<open>Get\<close> returns a pointer and an error together. The pointer is to
  the object the client allocated for the answer, which is still the zero value when the
  request failed. The function reads the object's data before it looks at a remaining
  error, so both values are kept.
\<close>

record ConfigMap =
  Data :: "(string \<times> string) list"

type_synonym 'c Clientset = "string \<Rightarrow> string \<Rightarrow> 'c \<Rightarrow> error + ConfigMap"

definition PortalConfigName :: string where
  "PortalConfigName = ''litmus-portal-config''"

definition ConfigMaps_Get ::
  "'c Clientset \<Rightarrow> string \<Rightarrow> string \<Rightarrow> 'c \<Rightarrow> ConfigMap \<times> error option" where
  "ConfigMaps_Get clientset ns name c =
     (case clientset ns name c of
        Inl err \<Rightarrow> (\<lparr>Data = []\<rparr>, Some err)
      | Inr cm \<Rightarrow> (cm, None))"

definition IsClusterConfirmed ::
  "error + 'c Clientset \<Rightarrow> string \<Rightarrow> 'c \<Rightarrow> bool \<times> string \<times> error option" where
  "IsClusterConfirmed GetGenericK8sClient AgentNamespace c =
     (case GetGenericK8sClient of
        Inl err \<Rightarrow> (False, [], Some err)
      | Inr clientset \<Rightarrow>
          (case ConfigMaps_Get clientset AgentNamespace PortalConfigName c of
             (getCM, err) \<Rightarrow>
               if IsNotFound err then (False, [], None)
               else if map_index (Data getCM) ''is_cluster_confirmed'' = ''true''
               then (True, map_index (Data getCM) ''cluster_key'', None)
               else if err \<noteq> None then (False, [], err)
               else (False, [], None)))"

section \<open>Counting discovery queries\<close>

fun is_DiscoveryRequest :: "request \<Rightarrow> bool" where
  "is_DiscoveryRequest (DiscoveryRequest gvk) = True"
| "is_DiscoveryRequest r = False"

definition discovery_queries :: "request list \<Rightarrow> nat" where
  "discovery_queries rs = length (filter is_DiscoveryRequest rs)"

text \<open>
  What a request through \<^verbatim>\<open>dr\<close> leaves as it was: the variable \<^verbatim>\<open>dr\<close> itself and the
  number of discovery queries sent.
\<close>

definition kept :: "'c process \<Rightarrow> 'c process \<Rightarrow> bool" where
  "kept st st' \<longleftrightarrow> dr st' = dr st \<and> discovery_queries (requests st') = discovery_queries (requests st)"

section \<open>A small cluster for concrete runs\<close>

text \<open>
  An in-memory cluster on which the functions are run at concrete inputs: the objects it
  holds, each under the handle it was created through. Creating a name twice under one
  handle is refused as already existing; reading, updating or deleting a name that is not
  there is refused as not found; listing selects by the \<^verbatim>\<open>workflow_id\<close> label. Its API
  catalog knows config maps and workflows (namespaced) and namespaces (cluster-wide).
\<close>

type_synonym mem_cluster = "(ResourceInterface \<times> Unstructured) list"

definition mem_find :: "ResourceInterface \<Rightarrow> string \<Rightarrow> mem_cluster \<Rightarrow> Unstructured option" where
  "mem_find h name c = map_option snd (find (\<lambda>e. fst e = h \<and> Name (snd e) = name) c)"

definition mem_NotFound :: error where
  "mem_NotFound = StatusError StatusReasonNotFound ''not found''"

definition mem_Forbidden :: error where
  "mem_Forbidden = StatusError StatusReasonForbidden ''forbidden''"

definition mem_client :: "mem_cluster DynamicClient" where
  "mem_client =
     \<lparr>Create = (\<lambda>h obj c.
        case mem_find h (Name obj) c of
          Some live \<Rightarrow> (Inl (StatusError StatusReasonAlreadyExists ''already exists''), c)
        | None \<Rightarrow> (Inr (obj\<lparr>ResourceVersion := ''1''\<rparr>), c @ [(h, obj\<lparr>ResourceVersion := ''1''\<rparr>)])),
      Get = (\<lambda>h name c.
        case mem_find h name c of
          None \<Rightarrow> (Inl mem_NotFound, c)
        | Some live \<Rightarrow> (Inr live, c)),
      Update = (\<lambda>h obj c.
        case mem_find h (Name obj) c of
          None \<Rightarrow> (Inl mem_NotFound, c)
        | Some live \<Rightarrow>
            if ResourceVersion live = ResourceVersion obj
            then (Inr obj, map (\<lambda>e. if fst e = h \<and> Name (snd e) = Name obj then (h, obj) else e) c)
            else (Inl (StatusError StatusReasonConflict ''conflict''), c)),
      Delete = (\<lambda>h name c.
        case mem_find h name c of
          None \<Rightarrow> (Some mem_NotFound, c)
        | Some live \<Rightarrow> (None, filter (\<lambda>e. \<not> (fst e = h \<and> Name (snd e) = name)) c)),
      List = (\<lambda>h selector c.
        (Inr (map snd (filter (\<lambda>e. fst e = h \<and> map_index (Labels (snd e)) ''workflow_id'' = selector) c)),
         c))\<rparr>"

definition mem_discovery :: "mem_cluster DiscoveryClient" where
  "mem_discovery gvk c =
     (if gvk = ([], ''v1'', ''ConfigMap'')
      then (Inr \<lparr>Resource = ([], ''v1'', ''configmaps''), Scope = RESTScopeNameNamespace\<rparr>, c)
      else if gvk = ([], ''v1'', ''Namespace'')
      then (Inr \<lparr>Resource = ([], ''v1'', ''namespaces''), Scope = RESTScopeNameRoot\<rparr>, c)
      else if gvk = (''argoproj.io'', ''v1alpha1'', ''Workflow'')
      then (Inr \<lparr>Resource = (''argoproj.io'', ''v1alpha1'', ''workflows''),
                 Scope = RESTScopeNameNamespace\<rparr>, c)
      else (Inl (Errorf ''no matches for kind''), c))"

text \<open>
  Three objects and the manifests that decode to them. The decoder of the concrete runs
  is a table of these manifests; any other document is a decoding error.
\<close>

definition cfg1 :: Unstructured where
  "cfg1 = \<lparr>Kind = ''ConfigMap'', APIVersion = ''v1'', Name = ''cfg1'', Labels = [],
           ResourceVersion = [], Content = []\<rparr>"

definition team1 :: Unstructured where
  "team1 = \<lparr>Kind = ''Namespace'', APIVersion = ''v1'', Name = ''team1'', Labels = [],
            ResourceVersion = [], Content = []\<rparr>"

definition wf1 :: Unstructured where
  "wf1 = \<lparr>Kind = ''Workflow'', APIVersion = ''argoproj.io/v1alpha1'', Name = ''wf'',
          Labels = [(''workflow_id'', ''run-1'')], ResourceVersion = [], Content = []\<rparr>"

definition cfg1_manifest :: string where
  "cfg1_manifest = ''{kind: ConfigMap, apiVersion: v1, name: cfg1}''"

definition team1_manifest :: string where
  "team1_manifest = ''{kind: Namespace, apiVersion: v1, name: team1}''"

definition wf1_manifest :: string where
  "wf1_manifest = ''{kind: Workflow, name: wf, labels: {workflow_id: run-1}}''"

definition mem_Decode :: "string \<Rightarrow> error + (Unstructured \<times> GroupVersionKind)" where
  "mem_Decode yamlStr =
     (if yamlStr = cfg1_manifest then Inr (cfg1, ([], ''v1'', ''ConfigMap''))
      else if yamlStr = team1_manifest then Inr (team1, ([], ''v1'', ''Namespace''))
      else if yamlStr = wf1_manifest then Inr (wf1, (''argoproj.io'', ''v1alpha1'', ''Workflow''))
      else Inl (Errorf ''not a manifest''))"

definition mem_env :: "mem_cluster environment" where
  "mem_env =
     \<lparr>JSONToYAML = Inr, Decode = mem_Decode,
      GetDynamicAndDiscoveryClient = Inr (mem_discovery, mem_client)\<rparr>"

text \<open>The same cluster behind a client whose list request is refused.\<close>

definition mem_env_list_forbidden :: "mem_cluster environment" where
  "mem_env_list_forbidden =
     \<lparr>JSONToYAML = Inr, Decode = mem_Decode,
      GetDynamicAndDiscoveryClient =
        Inr (mem_discovery, mem_client\<lparr>List := \<lambda>h selector c. (Inl mem_Forbidden, c)\<rparr>)\<rparr>"

text \<open>A process that has not called \<^verbatim>\<open>ClusterOperations\<close> yet, on a given cluster.\<close>

definition start :: "'c \<Rightarrow> 'c process" where
  "start c = \<lparr>dr = None, cluster = c, requests = [], logs = []\<rparr>"

text \<open>Config maps by namespace and name, behind the typed clientset.\<close>

type_synonym mem_configmaps = "((string \<times> string) \<times> ConfigMap) list"

definition mem_clientset :: "mem_configmaps Clientset" where
  "mem_clientset ns name c =
     (case map_of c (ns, name) of None \<Rightarrow> Inl mem_NotFound | Some cm \<Rightarrow> Inr cm)"

text \<open>A handle for the config maps of one namespace, and a process bound to a handle.\<close>

definition configmaps_ns1 :: ResourceInterface where
  "configmaps_ns1 = ResourceClient ([], ''v1'', ''configmaps'') (Some ''ns1'')"

definition bound :: "ResourceInterface \<Rightarrow> 'c \<Rightarrow> 'c process" where
  "bound h c = \<lparr>dr = Some h, cluster = c, requests = [], logs = []\<rparr>"

section \<open>Unfolding the concrete cluster\<close>

lemmas mem_defs = mem_client_def mem_find_def mem_NotFound_def mem_Forbidden_def
  cfg1_def team1_def wf1_def configmaps_ns1_def bound_def start_def

section \<open>What applyRequest leaves unchanged\<close>

lemma kept_refl: "kept st st"
  by (simp add: kept_def)

lemma kept_log: "kept st st1 \<Longrightarrow> kept st (log_Println line st1)"
  by (simp add: kept_def log_Println_def)

lemma kept_trans: "kept st st1 \<Longrightarrow> kept st1 st2 \<Longrightarrow> kept st st2"
  by (simp add: kept_def)

lemma dr_Create_kept: "dr_Create client obj st = Some (res, st1) \<Longrightarrow> kept st st1"
  by (auto simp add: dr_Create_def kept_def discovery_queries_def split: option.splits prod.splits)

lemma dr_Get_kept: "dr_Get client name st = Some (res, st1) \<Longrightarrow> kept st st1"
  by (auto simp add: dr_Get_def kept_def discovery_queries_def split: option.splits prod.splits)

lemma dr_Update_kept: "dr_Update client obj st = Some (res, st1) \<Longrightarrow> kept st st1"
  by (auto simp add: dr_Update_def kept_def discovery_queries_def split: option.splits prod.splits)

lemma dr_Delete_kept: "dr_Delete client name st = Some (res, st1) \<Longrightarrow> kept st st1"
  by (auto simp add: dr_Delete_def kept_def discovery_queries_def split: option.splits prod.splits)

lemma dr_List_kept: "dr_List client selector st = Some (res, st1) \<Longrightarrow> kept st st1"
  by (auto simp add: dr_List_def kept_def discovery_queries_def split: option.splits prod.splits)

lemma applyRequest_create_kept: "kept st (snd (applyRequest client ''create'' obj st))"
proof (cases "dr_Create client obj st")
  case None
  then show ?thesis by (simp add: applyRequest_def kept_refl)
next
  case (Some a)
  then obtain res st1 where a: "dr_Create client obj st = Some (res, st1)" by (cases a) simp
  from dr_Create_kept[OF a] a show ?thesis
    by (cases res) (simp_all add: applyRequest_def kept_log)
qed

lemma applyRequest_get_kept: "kept st (snd (applyRequest client ''get'' obj st))"
proof (cases "dr_Get client (Name obj) st")
  case None
  then show ?thesis by (simp add: applyRequest_def kept_refl)
next
  case (Some a)
  then obtain res st1 where a: "dr_Get client (Name obj) st = Some (res, st1)" by (cases a) simp
  from dr_Get_kept[OF a] a show ?thesis
    by (cases res) (simp_all add: applyRequest_def kept_log)
qed

lemma applyRequest_delete_kept: "kept st (snd (applyRequest client ''delete'' obj st))"
proof (cases "dr_Delete client (Name obj) st")
  case None
  then show ?thesis by (simp add: applyRequest_def kept_refl)
next
  case (Some a)
  then obtain res st1 where a: "dr_Delete client (Name obj) st = Some (res, st1)" by (cases a) simp
  from dr_Delete_kept[OF a] a show ?thesis
    by (cases res) (simp_all add: applyRequest_def kept_log)
qed

lemma applyRequest_update_kept: "kept st (snd (applyRequest client ''update'' obj st))"
proof (cases "dr_Get client (Name obj) st")
  case None
  then show ?thesis by (simp add: applyRequest_def kept_refl)
next
  case (Some a)
  then obtain res st1 where a: "dr_Get client (Name obj) st = Some (res, st1)" by (cases a) simp
  note k1 = dr_Get_kept[OF a]
  show ?thesis
  proof (cases res)
    case (Inl err)
    with a k1 show ?thesis by (simp add: applyRequest_def kept_log)
  next
    case (Inr getObj)
    show ?thesis
    proof (cases "dr_Update client (obj\<lparr>ResourceVersion := ResourceVersion getObj\<rparr>) st1")
      case None
      with a Inr k1 show ?thesis by (simp add: applyRequest_def)
    next
      case (Some b)
      then obtain res2 st2 where
        b: "dr_Update client (obj\<lparr>ResourceVersion := ResourceVersion getObj\<rparr>) st1 = Some (res2, st2)"
        by (cases b) simp
      from kept_trans[OF k1 dr_Update_kept[OF b]] a b Inr show ?thesis
        by (cases res2) (simp_all add: applyRequest_def kept_log)
    qed
  qed
qed

lemma applyRequest_kept: "kept st (snd (applyRequest client requestType obj st))"
proof -
  consider "requestType = ''create''" | "requestType = ''update''" | "requestType = ''delete''"
    | "requestType = ''get''"
    | "requestType \<notin> {''create'', ''update'', ''delete'', ''get''}"
    by auto
  then show ?thesis
  proof cases
    case 5
    then show ?thesis by (simp add: applyRequest_def kept_refl)
  qed (simp_all add: applyRequest_create_kept applyRequest_update_kept applyRequest_delete_kept
      applyRequest_get_kept)
qed

section \<open>What every resolved call of ClusterOperations does\<close>

text \<open>
  Once the manifest is converted and decoded, the clients are there and the API catalog
  knows the kind, the call has sent one discovery query and assigned \<^verbatim>\<open>dr\<close>; what is left
  is the list request of the label-addressed kinds and \<^verbatim>\<open>applyRequest\<close>.
\<close>

lemma ClusterOperations_resolved:
  assumes "JSONToYAML env manifest = Inr yamlStr"
    and "GetDynamicAndDiscoveryClient env = Inr (discoveryClient, dynamicClient)"
    and "Decode env yamlStr = Inr (obj, gvk)"
    and "discoveryClient gvk (cluster st) = (Inr mapping, c)"
    and "st2 = st\<lparr>cluster := c, requests := requests st @ [DiscoveryRequest gvk],
                  dr := Some (ResourceClient (Resource mapping)
                    (if Scope mapping = RESTScopeNameNamespace then Some namespace else None))\<rparr>"
  shows "ClusterOperations env manifest requestType namespace st =
        (if Kind obj = ''CronWorkflow'' \<or> Kind obj = ''Workflow'' then
           (case dr_List dynamicClient (map_index (Labels obj) ''workflow_id'') st2 of
              None \<Rightarrow> (Panic NilPointerDereference, st2)
            | Some (Inl err, st3) \<Rightarrow> (Return (None, None), st3)
            | Some (Inr pods, st3) \<Rightarrow>
                (case pods of
                   [] \<Rightarrow> (Panic IndexOutOfRange, st3)
                 | item # items \<Rightarrow>
                     applyRequest dynamicClient requestType (obj\<lparr>Name := Name item\<rparr>) st3))
         else applyRequest dynamicClient requestType obj st2)"
  using assms(1-4) unfolding assms(5)
  by (simp add: ClusterOperations_def mapper_RESTMapping_def NewMemCacheClient_def Let_def)

text \<open>Neither the list request nor \<^verbatim>\<open>applyRequest\<close> touches \<^verbatim>\<open>dr\<close> or queries the catalog.\<close>

lemma ClusterOperations_resolved_kept:
  assumes "JSONToYAML env manifest = Inr yamlStr"
    and "GetDynamicAndDiscoveryClient env = Inr (discoveryClient, dynamicClient)"
    and "Decode env yamlStr = Inr (obj, gvk)"
    and "discoveryClient gvk (cluster st) = (Inr mapping, c)"
    and "st2 = st\<lparr>cluster := c, requests := requests st @ [DiscoveryRequest gvk],
                  dr := Some (ResourceClient (Resource mapping)
                    (if Scope mapping = RESTScopeNameNamespace then Some namespace else None))\<rparr>"
  shows "kept st2 (snd (ClusterOperations env manifest requestType namespace st))"
proof -
  note step = ClusterOperations_resolved[OF assms, of requestType]
  show ?thesis
  proof (cases "Kind obj = ''CronWorkflow'' \<or> Kind obj = ''Workflow''")
    case False
    with step applyRequest_kept[of st2 dynamicClient requestType obj] show ?thesis
      by simp
  next
    case True
    show ?thesis
    proof (cases "dr_List dynamicClient (map_index (Labels obj) ''workflow_id'') st2")
      case None
      with step True show ?thesis by (simp add: kept_refl)
    next
      case (Some a)
      then obtain lres st3 where
        l: "dr_List dynamicClient (map_index (Labels obj) ''workflow_id'') st2 = Some (lres, st3)"
        by (cases a) simp
      note k3 = dr_List_kept[OF l]
      show ?thesis
      proof (cases lres)
        case (Inl err)
        with step True l k3 show ?thesis by simp
      next
        case (Inr pods)
        show ?thesis
        proof (cases pods)
          case Nil
          with step True l k3 Inr show ?thesis by simp
        next
          case (Cons item items)
          with step True l Inr
            kept_trans[OF k3 applyRequest_kept[of st3 dynamicClient requestType "obj\<lparr>Name := Name item\<rparr>"]]
          show ?thesis by simp
        qed
      qed
    qed
  qed
qed

lemma ClusterOperations_one_query:
  assumes "JSONToYAML env manifest = Inr yamlStr"
    and "GetDynamicAndDiscoveryClient env = Inr (discoveryClient, dynamicClient)"
    and "Decode env yamlStr = Inr (obj, gvk)"
  shows "discovery_queries (requests (snd (ClusterOperations env manifest requestType namespace st))) =
           Suc (discovery_queries (requests st))"
proof -
  obtain res c where q: "discoveryClient gvk (cluster st) = (res, c)"
    by (cases "discoveryClient gvk (cluster st)")
  show ?thesis
  proof (cases res)
    case (Inl err)
    with assms q show ?thesis
      by (simp add: ClusterOperations_def mapper_RESTMapping_def NewMemCacheClient_def
          discovery_queries_def)
  next
    case (Inr mapping)
    with q have q': "discoveryClient gvk (cluster st) = (Inr mapping, c)"
      by simp
    from ClusterOperations_resolved_kept[OF assms q' refl, of namespace requestType]
    show ?thesis
      by (simp add: kept_def discovery_queries_def)
  qed
qed

section \<open>C1: a label-addressed kind with no matching instance\<close>

text \<open>
  For a manifest of kind \<^verbatim>\<open>CronWorkflow\<close> or \<^verbatim>\<open>Workflow\<close> whose list request succeeds with
  no item, the call does not return at all: \<^verbatim>\<open>pods.Items[0]\<close> is read without a check of
  the length and panics. Only the discovery query and the list request have been sent.
\<close>

lemma ClusterOperations_empty_list_panics:
  assumes "JSONToYAML env manifest = Inr yamlStr"
    and "GetDynamicAndDiscoveryClient env = Inr (discoveryClient, dynamicClient)"
    and "Decode env yamlStr = Inr (obj, gvk)"
    and "discoveryClient gvk (cluster st) = (Inr mapping, c)"
    and "Kind obj = ''CronWorkflow'' \<or> Kind obj = ''Workflow''"
    and "h = ResourceClient (Resource mapping)
               (if Scope mapping = RESTScopeNameNamespace then Some namespace else None)"
    and "List dynamicClient h (map_index (Labels obj) ''workflow_id'') c = (Inr [], c2)"
  shows "ClusterOperations env manifest requestType namespace st =
           (Panic IndexOutOfRange,
            st\<lparr>cluster := c2,
               requests := requests st @
                 [DiscoveryRequest gvk, ListRequest h (map_index (Labels obj) ''workflow_id'')],
               dr := Some h\<rparr>)"
  using assms(5,7) unfolding assms(6)
  by (simp add: ClusterOperations_resolved[OF assms(1-4) refl] dr_List_def)

text \<open>
  C1 says that a manifest of a label-addressed kind with no matching instance fails with
  the error TargetNotFound and never reaches \<^verbatim>\<open>applyRequest\<close>. The code at such an input:
  a \<^verbatim>\<open>Workflow\<close> manifest labelled \<^verbatim>\<open>workflow_id: run-1\<close>, applied with the verb create in
  the namespace \<^verbatim>\<open>litmus\<close> of a cluster that holds no workflow. The call panics with an
  index out of range instead of returning an error, after the discovery query and the list
  request; no create request was sent.
\<close>

theorem ClusterOperations_no_instance_panics:
  "ClusterOperations mem_env wf1_manifest ''create'' ''litmus'' (start []) =
     (Panic IndexOutOfRange,
      \<lparr>dr = Some (ResourceClient (''argoproj.io'', ''v1alpha1'', ''workflows'') (Some ''litmus'')),
       cluster = [],
       requests =
         [DiscoveryRequest (''argoproj.io'', ''v1alpha1'', ''Workflow''),
          ListRequest (ResourceClient (''argoproj.io'', ''v1alpha1'', ''workflows'') (Some ''litmus''))
            ''run-1''],
       logs = []\<rparr>)"
  by (simp add: ClusterOperations_def mapper_RESTMapping_def NewMemCacheClient_def dr_List_def
      mem_env_def mem_Decode_def mem_discovery_def wf1_manifest_def cfg1_manifest_def
      team1_manifest_def map_index_def mem_defs)

section \<open>C2: an error of the list request\<close>

text \<open>
  For a manifest of kind \<^verbatim>\<open>CronWorkflow\<close> or \<^verbatim>\<open>Workflow\<close>, whatever error the list request
  fails with, the call returns \<^verbatim>\<open>nil, nil\<close>: the error is dropped, and \<^verbatim>\<open>applyRequest\<close> is
  not reached.
\<close>

lemma ClusterOperations_list_error_dropped:
  assumes "JSONToYAML env manifest = Inr yamlStr"
    and "GetDynamicAndDiscoveryClient env = Inr (discoveryClient, dynamicClient)"
    and "Decode env yamlStr = Inr (obj, gvk)"
    and "discoveryClient gvk (cluster st) = (Inr mapping, c)"
    and "Kind obj = ''CronWorkflow'' \<or> Kind obj = ''Workflow''"
    and "h = ResourceClient (Resource mapping)
               (if Scope mapping = RESTScopeNameNamespace then Some namespace else None)"
    and "List dynamicClient h (map_index (Labels obj) ''workflow_id'') c = (Inl err, c2)"
  shows "ClusterOperations env manifest requestType namespace st =
           (Return (None, None),
            st\<lparr>cluster := c2,
               requests := requests st @
                 [DiscoveryRequest gvk, ListRequest h (map_index (Labels obj) ''workflow_id'')],
               dr := Some h\<rparr>)"
  using assms(5,7) unfolding assms(6)
  by (simp add: ClusterOperations_resolved[OF assms(1-4) refl] dr_List_def)

text \<open>
  What \<^verbatim>\<open>applyRequest\<close> does with an error of the cluster that is not one of the two benign
  ones: it returns the error itself.
\<close>

lemma applyRequest_returns_other_errors:
  assumes "dr st = Some h"
  shows "Create client h obj (cluster st) = (Inl err, c) \<Longrightarrow> \<not> IsAlreadyExists (Some err) \<Longrightarrow>
           fst (applyRequest client ''create'' obj st) = Return (None, Some err)"
    and "Get client h (Name obj) (cluster st) = (Inl err, c) \<Longrightarrow> \<not> IsNotFound (Some err) \<Longrightarrow>
           fst (applyRequest client ''get'' obj st) = Return (None, Some err)"
    and "Get client h (Name obj) (cluster st) = (Inl err, c) \<Longrightarrow> \<not> IsNotFound (Some err) \<Longrightarrow>
           fst (applyRequest client ''update'' obj st) = Return (None, Some err)"
    and "Get client h (Name obj) (cluster st) = (Inr getObj, c) \<Longrightarrow>
           Update client h (obj\<lparr>ResourceVersion := ResourceVersion getObj\<rparr>) c = (Inl err, c2) \<Longrightarrow>
           fst (applyRequest client ''update'' obj st) = Return (None, Some err)"
    and "Delete client h (Name obj) (cluster st) = (Some err, c) \<Longrightarrow> \<not> IsNotFound (Some err) \<Longrightarrow>
           fst (applyRequest client ''delete'' obj st) = Return (None, Some err)"
  using assms
  by (simp_all add: applyRequest_def dr_Create_def dr_Get_def dr_Update_def dr_Delete_def)

text \<open>
  C2 says that every error of the cluster other than the two benign ones, an error of the
  list request included, is returned to the caller unchanged. The code at a list error: the
  \<^verbatim>\<open>Workflow\<close> manifest with the verb get, through a client whose list request is refused as
  forbidden. The call returns a nil object and a nil error, not the error of the list
  request.
\<close>

theorem ClusterOperations_list_forbidden_returns_nil:
  "ClusterOperations mem_env_list_forbidden wf1_manifest ''get'' ''litmus'' (start []) =
     (Return (None, None),
      \<lparr>dr = Some (ResourceClient (''argoproj.io'', ''v1alpha1'', ''workflows'') (Some ''litmus'')),
       cluster = [],
       requests =
         [DiscoveryRequest (''argoproj.io'', ''v1alpha1'', ''Workflow''),
          ListRequest (ResourceClient (''argoproj.io'', ''v1alpha1'', ''workflows'') (Some ''litmus''))
            ''run-1''],
       logs = []\<rparr>)"
  by (simp add: ClusterOperations_def mapper_RESTMapping_def NewMemCacheClient_def dr_List_def
      mem_env_list_forbidden_def mem_Decode_def mem_discovery_def wf1_manifest_def
      cfg1_manifest_def team1_manifest_def map_index_def mem_defs)

section \<open>C3: create on a resource that already exists\<close>

text \<open>
  C3. With \<^verbatim>\<open>dr\<close> bound to a handle, for every object: if the cluster answers the create
  request with "already exists", \<^verbatim>\<open>applyRequest\<close> returns the benign no-op result (nil
  object, nil error); it has sent the one create request and logged "Already exists".
  Consequently a second application of the same object with the verb create, run in the
  state the first application left and answered with "already exists", returns no error:
  the first application leaves \<^verbatim>\<open>dr\<close> bound to the same handle.
\<close>

theorem applyRequest_create_already_exists:
  assumes "dr st = Some h"
  shows "(Create client h obj (cluster st) = (Inl err, c) \<longrightarrow> IsAlreadyExists (Some err) \<longrightarrow>
            applyRequest client ''create'' obj st =
              (Return (None, None),
               st\<lparr>cluster := c, requests := requests st @ [CreateRequest h obj],
                  logs := logs st @ [''Already exists'']\<rparr>))
       \<and> (applyRequest client ''create'' obj st = (r1, st1) \<longrightarrow>
            Create client h obj (cluster st1) = (Inl err2, c2) \<longrightarrow> IsAlreadyExists (Some err2) \<longrightarrow>
            fst (applyRequest client ''create'' obj st1) = Return (None, None))"
proof (intro conjI impI)
  assume "Create client h obj (cluster st) = (Inl err, c)" and "IsAlreadyExists (Some err)"
  with assms show "applyRequest client ''create'' obj st =
      (Return (None, None),
       st\<lparr>cluster := c, requests := requests st @ [CreateRequest h obj],
          logs := logs st @ [''Already exists'']\<rparr>)"
    by (simp add: applyRequest_def dr_Create_def log_Println_def)
next
  assume first: "applyRequest client ''create'' obj st = (r1, st1)"
    and again: "Create client h obj (cluster st1) = (Inl err2, c2)"
    and exists: "IsAlreadyExists (Some err2)"
  from applyRequest_kept[of st client "''create''" obj] first assms have "dr st1 = Some h"
    by (simp add: kept_def)
  with again exists show "fst (applyRequest client ''create'' obj st1) = Return (None, None)"
    by (simp add: applyRequest_def dr_Create_def)
qed

text \<open>
  On the in-memory cluster, empty at first: the first create stores the config map, the
  second is answered with "already exists" and returns the no-op result.
\<close>

theorem applyRequest_create_already_exists_witness:
  "applyRequest mem_client ''create'' cfg1 (bound configmaps_ns1 []) =
     (Return (Some (cfg1\<lparr>ResourceVersion := ''1''\<rparr>), None),
      \<lparr>dr = Some configmaps_ns1,
       cluster = [(configmaps_ns1, cfg1\<lparr>ResourceVersion := ''1''\<rparr>)],
       requests = [CreateRequest configmaps_ns1 cfg1],
       logs = [''Resource successfully created'']\<rparr>) \<and>
   applyRequest mem_client ''create'' cfg1
     \<lparr>dr = Some configmaps_ns1,
      cluster = [(configmaps_ns1, cfg1\<lparr>ResourceVersion := ''1''\<rparr>)],
      requests = [CreateRequest configmaps_ns1 cfg1],
      logs = [''Resource successfully created'']\<rparr> =
     (Return (None, None),
      \<lparr>dr = Some configmaps_ns1,
       cluster = [(configmaps_ns1, cfg1\<lparr>ResourceVersion := ''1''\<rparr>)],
       requests = [CreateRequest configmaps_ns1 cfg1, CreateRequest configmaps_ns1 cfg1],
       logs = [''Resource successfully created'', ''Already exists'']\<rparr>)"
proof -
  let ?st = "bound configmaps_ns1 ([] :: mem_cluster)"
  let ?live = "cfg1\<lparr>ResourceVersion := ''1''\<rparr>"
  let ?st1 = "\<lparr>dr = Some configmaps_ns1, cluster = [(configmaps_ns1, ?live)],
               requests = [CreateRequest configmaps_ns1 cfg1],
               logs = [''Resource successfully created'']\<rparr>"
  let ?err = "StatusError StatusReasonAlreadyExists ''already exists''"
  have bound0: "dr ?st = Some configmaps_ns1"
    by (simp add: bound_def)
  have first: "applyRequest mem_client ''create'' cfg1 ?st = (Return (Some ?live, None), ?st1)"
    by (simp add: applyRequest_def dr_Create_def log_Println_def mem_defs)
  have bound1: "dr ?st1 = Some configmaps_ns1"
    by simp
  have again: "Create mem_client configmaps_ns1 cfg1 (cluster ?st1) =
      (Inl ?err, [(configmaps_ns1, ?live)])"
    by (simp add: mem_defs)
  have exists: "IsAlreadyExists (Some ?err)"
    by (simp add: IsAlreadyExists_def)
  from applyRequest_create_already_exists[OF bound0, of mem_client cfg1 _ _
      "Return (Some ?live, None)" ?st1 ?err "[(configmaps_ns1, ?live)]"] first again exists
  have second: "fst (applyRequest mem_client ''create'' cfg1 ?st1) = Return (None, None)"
    by blast
  from applyRequest_create_already_exists[OF bound1, of mem_client cfg1 ?err
      "[(configmaps_ns1, ?live)]"] again exists
  have "applyRequest mem_client ''create'' cfg1 ?st1 =
      (Return (None, None),
       ?st1\<lparr>cluster := [(configmaps_ns1, ?live)],
           requests := requests ?st1 @ [CreateRequest configmaps_ns1 cfg1],
           logs := logs ?st1 @ [''Already exists'']\<rparr>)"
    by blast
  with first second show ?thesis
    by (simp add: bound_def)
qed

section \<open>C4: update reads the live object first\<close>

text \<open>
  C4. With \<^verbatim>\<open>dr\<close> bound to a handle, for every object and the verb update,
  \<^verbatim>\<open>applyRequest\<close> first sends a get for the object's name. If the get is answered with
  "not found", the result is the benign no-op (nil, nil) and the get is the only request
  sent: no update is submitted. If the get returns the live object, the update that is
  submitted next carries the object with the live object's resource version copied onto
  it, and the result is what the update answers. (A get that fails for any other reason
  has no live object to copy from: its error is returned and no update is submitted.)
\<close>

theorem applyRequest_update_get_first:
  assumes "dr st = Some h"
  shows "(Get client h (Name obj) (cluster st) = (Inl err, c) \<longrightarrow> IsNotFound (Some err) \<longrightarrow>
            applyRequest client ''update'' obj st =
              (Return (None, None),
               st\<lparr>cluster := c, requests := requests st @ [GetRequest h (Name obj)],
                  logs := logs st @ [Name obj @ '' not found'']\<rparr>))
       \<and> (Get client h (Name obj) (cluster st) = (Inr getObj, c) \<longrightarrow>
            Update client h (obj\<lparr>ResourceVersion := ResourceVersion getObj\<rparr>) c = (res, c2) \<longrightarrow>
            fst (applyRequest client ''update'' obj st) =
              Return (case res of Inl e \<Rightarrow> (None, Some e) | Inr response \<Rightarrow> (Some response, None)) \<and>
            cluster (snd (applyRequest client ''update'' obj st)) = c2 \<and>
            requests (snd (applyRequest client ''update'' obj st)) =
              requests st @ [GetRequest h (Name obj),
                             UpdateRequest h (obj\<lparr>ResourceVersion := ResourceVersion getObj\<rparr>)])
       \<and> (Get client h (Name obj) (cluster st) = (Inl err, c) \<longrightarrow> \<not> IsNotFound (Some err) \<longrightarrow>
            applyRequest client ''update'' obj st =
              (Return (None, Some err),
               st\<lparr>cluster := c, requests := requests st @ [GetRequest h (Name obj)]\<rparr>))"
proof (intro conjI impI)
  assume "Get client h (Name obj) (cluster st) = (Inl err, c)" and "IsNotFound (Some err)"
  with assms show "applyRequest client ''update'' obj st =
      (Return (None, None),
       st\<lparr>cluster := c, requests := requests st @ [GetRequest h (Name obj)],
          logs := logs st @ [Name obj @ '' not found'']\<rparr>)"
    by (simp add: applyRequest_def dr_Get_def log_Println_def)
next
  assume "Get client h (Name obj) (cluster st) = (Inl err, c)" and "\<not> IsNotFound (Some err)"
  with assms show "applyRequest client ''update'' obj st =
      (Return (None, Some err),
       st\<lparr>cluster := c, requests := requests st @ [GetRequest h (Name obj)]\<rparr>)"
    by (simp add: applyRequest_def dr_Get_def)
next
  assume live: "Get client h (Name obj) (cluster st) = (Inr getObj, c)"
    and upd: "Update client h (obj\<lparr>ResourceVersion := ResourceVersion getObj\<rparr>) c = (res, c2)"
  from assms live have got: "dr_Get client (Name obj) st =
      Some (Inr getObj, st\<lparr>cluster := c, requests := requests st @ [GetRequest h (Name obj)]\<rparr>)"
    by (simp add: dr_Get_def)
  from assms upd have sent:
    "dr_Update client (obj\<lparr>ResourceVersion := ResourceVersion getObj\<rparr>)
       (st\<lparr>cluster := c, requests := requests st @ [GetRequest h (Name obj)]\<rparr>) =
     Some (res, st\<lparr>cluster := c2,
                    requests := requests st @ [GetRequest h (Name obj),
                      UpdateRequest h (obj\<lparr>ResourceVersion := ResourceVersion getObj\<rparr>)]\<rparr>)"
    by (simp add: dr_Update_def)
  from got sent show "fst (applyRequest client ''update'' obj st) =
      Return (case res of Inl e \<Rightarrow> (None, Some e) | Inr response \<Rightarrow> (Some response, None))"
    by (cases res) (simp_all add: applyRequest_def log_Println_def)
  from got sent show "cluster (snd (applyRequest client ''update'' obj st)) = c2"
    by (cases res) (simp_all add: applyRequest_def log_Println_def)
  from got sent show "requests (snd (applyRequest client ''update'' obj st)) =
      requests st @ [GetRequest h (Name obj),
                     UpdateRequest h (obj\<lparr>ResourceVersion := ResourceVersion getObj\<rparr>)]"
    by (cases res) (simp_all add: applyRequest_def log_Println_def)
qed

text \<open>
  On the in-memory cluster: an update of a config map that is not there, an update of one
  that is there at resource version 1, submitted without a version, and an update through
  a client whose get is refused.
\<close>

theorem applyRequest_update_get_first_witness:
  "applyRequest mem_client ''update'' cfg1 (bound configmaps_ns1 []) =
     (Return (None, None),
      \<lparr>dr = Some configmaps_ns1, cluster = [],
       requests = [GetRequest configmaps_ns1 ''cfg1''], logs = [''cfg1 not found'']\<rparr>) \<and>
   fst (applyRequest mem_client ''update'' cfg1
          (bound configmaps_ns1 [(configmaps_ns1, cfg1\<lparr>ResourceVersion := ''1''\<rparr>)])) =
     Return (Some (cfg1\<lparr>ResourceVersion := ''1''\<rparr>), None) \<and>
   requests (snd (applyRequest mem_client ''update'' cfg1
          (bound configmaps_ns1 [(configmaps_ns1, cfg1\<lparr>ResourceVersion := ''1''\<rparr>)]))) =
     [GetRequest configmaps_ns1 ''cfg1'',
      UpdateRequest configmaps_ns1 (cfg1\<lparr>ResourceVersion := ''1''\<rparr>)] \<and>
   applyRequest (mem_client\<lparr>Get := \<lambda>h name c. (Inl mem_Forbidden, c)\<rparr>) ''update'' cfg1
       (bound configmaps_ns1 []) =
     (Return (None, Some mem_Forbidden),
      \<lparr>dr = Some configmaps_ns1, cluster = [],
       requests = [GetRequest configmaps_ns1 ''cfg1''], logs = []\<rparr>)"
proof -
  let ?live = "cfg1\<lparr>ResourceVersion := ''1''\<rparr>"
  let ?refusing = "mem_client\<lparr>Get := \<lambda>h name c. (Inl mem_Forbidden, c)\<rparr>"
  have handle: "dr (bound configmaps_ns1 c) = Some configmaps_ns1" for c :: mem_cluster
    by (simp add: bound_def)
  have absent: "Get mem_client configmaps_ns1 (Name cfg1) (cluster (bound configmaps_ns1 [])) =
      (Inl mem_NotFound, [])"
    by (simp add: mem_defs)
  have nf: "IsNotFound (Some mem_NotFound)"
    by (simp add: IsNotFound_def mem_NotFound_def)
  have present: "Get mem_client configmaps_ns1 (Name cfg1)
      (cluster (bound configmaps_ns1 [(configmaps_ns1, ?live)])) =
      (Inr ?live, [(configmaps_ns1, ?live)])"
    by (simp add: mem_defs)
  have stored: "Update mem_client configmaps_ns1 (cfg1\<lparr>ResourceVersion := ResourceVersion ?live\<rparr>)
      [(configmaps_ns1, ?live)] = (Inr ?live, [(configmaps_ns1, ?live)])"
    by (simp add: mem_defs)
  have refused: "Get ?refusing configmaps_ns1 (Name cfg1) (cluster (bound configmaps_ns1 [])) =
      (Inl mem_Forbidden, [])"
    by (simp add: bound_def)
  have other: "\<not> IsNotFound (Some mem_Forbidden)"
    by (simp add: IsNotFound_def mem_Forbidden_def)
  from applyRequest_update_get_first[OF handle, of mem_client cfg1 "[]" mem_NotFound "[]"] absent nf
  have one: "applyRequest mem_client ''update'' cfg1 (bound configmaps_ns1 []) =
      (Return (None, None),
       (bound configmaps_ns1 [])\<lparr>cluster := [],
          requests := requests (bound configmaps_ns1 ([] :: mem_cluster)) @
            [GetRequest configmaps_ns1 (Name cfg1)],
          logs := logs (bound configmaps_ns1 ([] :: mem_cluster)) @ [Name cfg1 @ '' not found'']\<rparr>)"
    by blast
  from applyRequest_update_get_first[OF handle, of mem_client cfg1 "[(configmaps_ns1, ?live)]"
      _ "[(configmaps_ns1, ?live)]" ?live "Inr ?live" "[(configmaps_ns1, ?live)]"] present stored
  have two: "fst (applyRequest mem_client ''update'' cfg1
        (bound configmaps_ns1 [(configmaps_ns1, ?live)])) =
      Return (case (Inr ?live :: error + Unstructured) of
                Inl e \<Rightarrow> (None, Some e) | Inr response \<Rightarrow> (Some response, None)) \<and>
    requests (snd (applyRequest mem_client ''update'' cfg1
        (bound configmaps_ns1 [(configmaps_ns1, ?live)]))) =
      requests (bound configmaps_ns1 [(configmaps_ns1, ?live)]) @
        [GetRequest configmaps_ns1 (Name cfg1),
         UpdateRequest configmaps_ns1 (cfg1\<lparr>ResourceVersion := ResourceVersion ?live\<rparr>)]"
    by blast
  from applyRequest_update_get_first[OF handle, of ?refusing cfg1 "[]" mem_Forbidden "[]"]
    refused other
  have three: "applyRequest ?refusing ''update'' cfg1 (bound configmaps_ns1 []) =
      (Return (None, Some mem_Forbidden),
       (bound configmaps_ns1 [])\<lparr>cluster := [],
          requests := requests (bound configmaps_ns1 ([] :: mem_cluster)) @
            [GetRequest configmaps_ns1 (Name cfg1)]\<rparr>)"
    by blast
  from one two three show ?thesis
    by (simp add: bound_def cfg1_def)
qed

section \<open>C5: get and delete of a target that is not there\<close>

text \<open>
  C5. With \<^verbatim>\<open>dr\<close> bound to a handle, for every object: a get and a delete that the cluster
  answers with "not found" return the benign no-op result with a nil error (nil, nil); a
  delete that succeeds returns the empty placeholder object \<^verbatim>\<open>&unstructured.Unstructured{}\<close>
  and a nil error.
\<close>

theorem applyRequest_get_delete_not_found:
  assumes "dr st = Some h"
  shows "(Get client h (Name obj) (cluster st) = (Inl err, c) \<longrightarrow> IsNotFound (Some err) \<longrightarrow>
            applyRequest client ''get'' obj st =
              (Return (None, None),
               st\<lparr>cluster := c, requests := requests st @ [GetRequest h (Name obj)],
                  logs := logs st @ [Name obj @ '' not found'']\<rparr>))
       \<and> (Delete client h (Name obj) (cluster st) = (Some err, c) \<longrightarrow> IsNotFound (Some err) \<longrightarrow>
            applyRequest client ''delete'' obj st =
              (Return (None, None),
               st\<lparr>cluster := c, requests := requests st @ [DeleteRequest h (Name obj)],
                  logs := logs st @ [Name obj @ '' not found'']\<rparr>))
       \<and> (Delete client h (Name obj) (cluster st) = (None, c) \<longrightarrow>
            applyRequest client ''delete'' obj st =
              (Return (Some empty_Unstructured, None),
               st\<lparr>cluster := c, requests := requests st @ [DeleteRequest h (Name obj)],
                  logs := logs st @ [''Resource successfully deleted'']\<rparr>))"
  using assms
  by (simp add: applyRequest_def dr_Get_def dr_Delete_def log_Println_def)

text \<open>
  On the in-memory cluster: a get and a delete of a config map that is not there, and a
  delete of one that is.
\<close>

theorem applyRequest_get_delete_not_found_witness:
  "applyRequest mem_client ''get'' cfg1 (bound configmaps_ns1 []) =
     (Return (None, None),
      \<lparr>dr = Some configmaps_ns1, cluster = [],
       requests = [GetRequest configmaps_ns1 ''cfg1''], logs = [''cfg1 not found'']\<rparr>) \<and>
   applyRequest mem_client ''delete'' cfg1 (bound configmaps_ns1 []) =
     (Return (None, None),
      \<lparr>dr = Some configmaps_ns1, cluster = [],
       requests = [DeleteRequest configmaps_ns1 ''cfg1''], logs = [''cfg1 not found'']\<rparr>) \<and>
   applyRequest mem_client ''delete'' cfg1 (bound configmaps_ns1 [(configmaps_ns1, cfg1)]) =
     (Return (Some empty_Unstructured, None),
      \<lparr>dr = Some configmaps_ns1, cluster = [],
       requests = [DeleteRequest configmaps_ns1 ''cfg1''],
       logs = [''Resource successfully deleted'']\<rparr>)"
proof -
  have handle: "dr (bound configmaps_ns1 c) = Some configmaps_ns1" for c :: mem_cluster
    by (simp add: bound_def)
  have nf: "IsNotFound (Some mem_NotFound)"
    by (simp add: IsNotFound_def mem_NotFound_def)
  have no_get: "Get mem_client configmaps_ns1 (Name cfg1) (cluster (bound configmaps_ns1 [])) =
      (Inl mem_NotFound, [])"
    by (simp add: mem_defs)
  have no_delete: "Delete mem_client configmaps_ns1 (Name cfg1) (cluster (bound configmaps_ns1 [])) =
      (Some mem_NotFound, [])"
    by (simp add: mem_defs)
  have deleted: "Delete mem_client configmaps_ns1 (Name cfg1)
      (cluster (bound configmaps_ns1 [(configmaps_ns1, cfg1)])) = (None, [])"
    by (simp add: mem_defs)
  note thm0 = applyRequest_get_delete_not_found[OF handle, of mem_client cfg1 "[]" mem_NotFound "[]"]
  note thm1 = applyRequest_get_delete_not_found[OF handle, of mem_client cfg1
      "[(configmaps_ns1, cfg1)]" _ "[]"]
  from thm0 no_get nf
  have one: "applyRequest mem_client ''get'' cfg1 (bound configmaps_ns1 []) =
      (Return (None, None),
       (bound configmaps_ns1 [])\<lparr>cluster := [],
          requests := requests (bound configmaps_ns1 ([] :: mem_cluster)) @
            [GetRequest configmaps_ns1 (Name cfg1)],
          logs := logs (bound configmaps_ns1 ([] :: mem_cluster)) @ [Name cfg1 @ '' not found'']\<rparr>)"
    by blast
  from thm0 no_delete nf
  have two: "applyRequest mem_client ''delete'' cfg1 (bound configmaps_ns1 []) =
      (Return (None, None),
       (bound configmaps_ns1 [])\<lparr>cluster := [],
          requests := requests (bound configmaps_ns1 ([] :: mem_cluster)) @
            [DeleteRequest configmaps_ns1 (Name cfg1)],
          logs := logs (bound configmaps_ns1 ([] :: mem_cluster)) @ [Name cfg1 @ '' not found'']\<rparr>)"
    by blast
  from thm1 deleted
  have three: "applyRequest mem_client ''delete'' cfg1 (bound configmaps_ns1 [(configmaps_ns1, cfg1)]) =
      (Return (Some empty_Unstructured, None),
       (bound configmaps_ns1 [(configmaps_ns1, cfg1)])\<lparr>cluster := [],
          requests := requests (bound configmaps_ns1 [(configmaps_ns1, cfg1)]) @
            [DeleteRequest configmaps_ns1 (Name cfg1)],
          logs := logs (bound configmaps_ns1 [(configmaps_ns1, cfg1)]) @
            [''Resource successfully deleted'']\<rparr>)"
    by blast
  from one two three show ?thesis
    by (simp add: bound_def cfg1_def)
qed

section \<open>C6: a namespaced resource and an empty namespace\<close>

text \<open>
  C6 as stated fails. The config map manifest, whose kind the catalog resolves to a
  namespaced resource, is read (verb get) with the empty string for the namespace, on a
  cluster that holds nothing: the call binds \<^verbatim>\<open>dr\<close> to the namespace \<^verbatim>\<open>""\<close>, sends the get
  request through it and, the name not being found, returns the benign no-op result with a
  nil error. Nothing fails before the operation is dispatched, and no error is returned at
  all.
\<close>

theorem ClusterOperations_empty_namespace_counterexample:
  "fst (mem_discovery ([], ''v1'', ''ConfigMap'') []) =
     Inr \<lparr>Resource = ([], ''v1'', ''configmaps''), Scope = RESTScopeNameNamespace\<rparr> \<and>
   ClusterOperations mem_env cfg1_manifest ''get'' [] (start []) =
     (Return (None, None),
      \<lparr>dr = Some (ResourceClient ([], ''v1'', ''configmaps'') (Some [])),
       cluster = [],
       requests =
         [DiscoveryRequest ([], ''v1'', ''ConfigMap''),
          GetRequest (ResourceClient ([], ''v1'', ''configmaps'') (Some [])) ''cfg1''],
       logs = [''cfg1 not found'']\<rparr>)"
  by (simp add: ClusterOperations_def applyRequest_def mapper_RESTMapping_def
      NewMemCacheClient_def dr_Get_def log_Println_def mem_env_def mem_Decode_def
      mem_discovery_def cfg1_manifest_def IsNotFound_def mem_defs)

text \<open>
  C6 as amended. When the mapping found for the manifest's kind is namespace-scoped,
  \<^verbatim>\<open>ClusterOperations\<close> binds \<^verbatim>\<open>dr\<close> to the resource in the namespace string exactly as
  given, the empty string included, with no check of it; and for a kind that is not
  label-addressed the call is then \<^verbatim>\<open>applyRequest\<close> on that handle: the operation is
  dispatched.
\<close>

theorem ClusterOperations_namespaced_binds_given_namespace:
  assumes "JSONToYAML env manifest = Inr yamlStr"
    and "GetDynamicAndDiscoveryClient env = Inr (discoveryClient, dynamicClient)"
    and "Decode env yamlStr = Inr (obj, gvk)"
    and "discoveryClient gvk (cluster st) = (Inr mapping, c)"
    and "Scope mapping = RESTScopeNameNamespace"
  shows "dr (snd (ClusterOperations env manifest requestType namespace st)) =
           Some (ResourceClient (Resource mapping) (Some namespace))
       \<and> (Kind obj \<noteq> ''CronWorkflow'' \<and> Kind obj \<noteq> ''Workflow'' \<longrightarrow>
            ClusterOperations env manifest requestType namespace st =
              applyRequest dynamicClient requestType obj
                (st\<lparr>cluster := c, requests := requests st @ [DiscoveryRequest gvk],
                    dr := Some (ResourceClient (Resource mapping) (Some namespace))\<rparr>))"
proof
  from ClusterOperations_resolved_kept[OF assms(1-4) refl, of namespace requestType] assms(5)
  show "dr (snd (ClusterOperations env manifest requestType namespace st)) =
      Some (ResourceClient (Resource mapping) (Some namespace))"
    by (simp add: kept_def)
next
  from assms(5)
  show "Kind obj \<noteq> ''CronWorkflow'' \<and> Kind obj \<noteq> ''Workflow'' \<longrightarrow>
      ClusterOperations env manifest requestType namespace st =
        applyRequest dynamicClient requestType obj
          (st\<lparr>cluster := c, requests := requests st @ [DiscoveryRequest gvk],
              dr := Some (ResourceClient (Resource mapping) (Some namespace))\<rparr>)"
    by (simp add: ClusterOperations_resolved[OF assms(1-4) refl])
qed

text \<open>The config map manifest with the empty namespace, on the in-memory cluster.\<close>

theorem ClusterOperations_namespaced_binds_given_namespace_witness:
  "dr (snd (ClusterOperations mem_env cfg1_manifest ''get'' [] (start []))) =
     Some (ResourceClient ([], ''v1'', ''configmaps'') (Some [])) \<and>
   ClusterOperations mem_env cfg1_manifest ''get'' [] (start []) =
     applyRequest mem_client ''get'' cfg1
       \<lparr>dr = Some (ResourceClient ([], ''v1'', ''configmaps'') (Some [])), cluster = [],
        requests = [DiscoveryRequest ([], ''v1'', ''ConfigMap'')], logs = []\<rparr>"
proof -
  let ?mapping = "\<lparr>Resource = ([], ''v1'', ''configmaps''), Scope = RESTScopeNameNamespace\<rparr>"
  have convert: "JSONToYAML mem_env cfg1_manifest = Inr cfg1_manifest"
    by (simp add: mem_env_def)
  have clients: "GetDynamicAndDiscoveryClient mem_env = Inr (mem_discovery, mem_client)"
    by (simp add: mem_env_def)
  have decode: "Decode mem_env cfg1_manifest = Inr (cfg1, ([], ''v1'', ''ConfigMap''))"
    by (simp add: mem_env_def mem_Decode_def)
  have found: "mem_discovery ([], ''v1'', ''ConfigMap'') (cluster (start [])) = (Inr ?mapping, [])"
    by (simp add: mem_discovery_def start_def)
  have scope: "Scope ?mapping = RESTScopeNameNamespace"
    by simp
  have kind: "Kind cfg1 \<noteq> ''CronWorkflow'' \<and> Kind cfg1 \<noteq> ''Workflow''"
    by (simp add: cfg1_def)
  have resolved:
    "(start ([] :: mem_cluster))\<lparr>cluster := [],
        requests := requests (start ([] :: mem_cluster)) @ [DiscoveryRequest ([], ''v1'', ''ConfigMap'')],
        dr := Some (ResourceClient ([], ''v1'', ''configmaps'') (Some []))\<rparr> =
     \<lparr>dr = Some (ResourceClient ([], ''v1'', ''configmaps'') (Some [])), cluster = [],
      requests = [DiscoveryRequest ([], ''v1'', ''ConfigMap'')], logs = []\<rparr>"
    by (simp add: start_def)
  have resource: "Resource ?mapping = ([], ''v1'', ''configmaps'')"
    by simp
  from ClusterOperations_namespaced_binds_given_namespace[OF convert clients decode found scope,
      of "''get''" "[]"] kind
  show ?thesis
    unfolding resource resolved by blast
qed

section \<open>C7: the registration check\<close>

text \<open>
  C7. \<^verbatim>\<open>IsClusterConfirmed\<close> returns (true, the record's cluster key, nil) when the read
  returns the record and its \<^verbatim>\<open>is_cluster_confirmed\<close> entry is "true"; (false, "", nil) when
  the read is answered with "not found"; and (false, "", err) when the read fails with any
  other error \<open>err\<close>, or when no clientset could be built. The typed client returns the
  zero config map together with an error, so the data read before the error is looked at
  holds no entry.
\<close>

theorem IsClusterConfirmed_cases:
  "(clientset ns PortalConfigName c = Inr cm \<longrightarrow>
      map_index (Data cm) ''is_cluster_confirmed'' = ''true'' \<longrightarrow>
      IsClusterConfirmed (Inr clientset) ns c = (True, map_index (Data cm) ''cluster_key'', None))
   \<and> (clientset ns PortalConfigName c = Inl err \<longrightarrow> IsNotFound (Some err) \<longrightarrow>
      IsClusterConfirmed (Inr clientset) ns c = (False, [], None))
   \<and> (clientset ns PortalConfigName c = Inl err \<longrightarrow> \<not> IsNotFound (Some err) \<longrightarrow>
      IsClusterConfirmed (Inr clientset) ns c = (False, [], Some err))
   \<and> IsClusterConfirmed (Inl err) ns c = (False, [], Some err)"
  by (simp add: IsClusterConfirmed_def ConfigMaps_Get_def IsNotFound_def map_index_def)

text \<open>
  The spec's scenario: the record with \<^verbatim>\<open>is_cluster_confirmed\<close> "true", cluster key "abc"
  and cluster id "123" in the agent's namespace; no record; a read that is refused.
\<close>

theorem IsClusterConfirmed_cases_witness:
  "IsClusterConfirmed (Inr mem_clientset) ''litmus''
     [((''litmus'', ''litmus-portal-config''),
       \<lparr>Data = [(''is_cluster_confirmed'', ''true''), (''cluster_key'', ''abc''),
                (''cluster_id'', ''123'')]\<rparr>)] = (True, ''abc'', None) \<and>
   IsClusterConfirmed (Inr mem_clientset) ''litmus'' [] = (False, [], None) \<and>
   IsClusterConfirmed (Inr (\<lambda>ns name c. Inl mem_Forbidden)) ''litmus'' ([] :: mem_configmaps) =
     (False, [], Some mem_Forbidden)"
proof -
  let ?cm = "\<lparr>Data = [(''is_cluster_confirmed'', ''true''), (''cluster_key'', ''abc''),
                      (''cluster_id'', ''123'')]\<rparr>"
  let ?c = "[((''litmus'', ''litmus-portal-config''), ?cm)]"
  let ?refusing = "\<lambda>ns name c. Inl mem_Forbidden :: error + ConfigMap"
  have found: "mem_clientset ''litmus'' PortalConfigName ?c = Inr ?cm"
    by (simp add: mem_clientset_def PortalConfigName_def)
  have confirmed: "map_index (Data ?cm) ''is_cluster_confirmed'' = ''true''"
    by (simp add: map_index_def)
  have key: "map_index (Data ?cm) ''cluster_key'' = ''abc''"
    by (simp add: map_index_def)
  have absent: "mem_clientset ''litmus'' PortalConfigName [] = Inl mem_NotFound"
    by (simp add: mem_clientset_def)
  have nf: "IsNotFound (Some mem_NotFound)"
    by (simp add: IsNotFound_def mem_NotFound_def)
  have refused: "?refusing ''litmus'' PortalConfigName ([] :: mem_configmaps) = Inl mem_Forbidden"
    by simp
  have other: "\<not> IsNotFound (Some mem_Forbidden)"
    by (simp add: IsNotFound_def mem_Forbidden_def)
  from IsClusterConfirmed_cases[of mem_clientset "''litmus''" ?c ?cm] found confirmed
  have one: "IsClusterConfirmed (Inr mem_clientset) ''litmus'' ?c =
      (True, map_index (Data ?cm) ''cluster_key'', None)"
    by blast
  from IsClusterConfirmed_cases[of mem_clientset "''litmus''" "[]" _ mem_NotFound] absent nf
  have two: "IsClusterConfirmed (Inr mem_clientset) ''litmus'' [] = (False, [], None)"
    by blast
  from IsClusterConfirmed_cases[of ?refusing "''litmus''" "[] :: mem_configmaps" _ mem_Forbidden]
    refused other
  have three: "IsClusterConfirmed (Inr ?refusing) ''litmus'' ([] :: mem_configmaps) =
      (False, [], Some mem_Forbidden)"
    by blast
  from one two three key show ?thesis
    by simp
qed

section \<open>C8: discovery queries across calls\<close>

text \<open>
  A mapper that is used again does memoize: after a lookup that succeeded, the same
  lookup over the cache it left is answered from the cache, with no request sent.
\<close>

lemma mapper_RESTMapping_memoizes:
  assumes "mapper_RESTMapping discoveryClient cache gvk st = (Inr mapping, cache1, st1)"
  shows "mapper_RESTMapping discoveryClient cache1 gvk st1 = (Inr mapping, cache1, st1)"
proof (cases "map_of cache gvk")
  case (Some found)
  with assms show ?thesis
    by (simp add: mapper_RESTMapping_def)
next
  case None
  obtain res c where q: "discoveryClient gvk (cluster st) = (res, c)"
    by (cases "discoveryClient gvk (cluster st)")
  from assms None q have "cache1 = (gvk, mapping) # cache"
    by (cases res) (simp_all add: mapper_RESTMapping_def Let_def)
  then show ?thesis
    by (simp add: mapper_RESTMapping_def)
qed

text \<open>
  C8 as stated fails. Two calls in succession for the same config map manifest, a create
  and then a get: each call makes its mapper over a new, empty cache, which no later call
  sees, and the catalog is queried twice for the same kind and version.
\<close>

theorem ClusterOperations_two_calls_counterexample:
  "requests (snd (ClusterOperations mem_env cfg1_manifest ''get'' ''ns1''
      (snd (ClusterOperations mem_env cfg1_manifest ''create'' ''ns1'' (start []))))) =
     [DiscoveryRequest ([], ''v1'', ''ConfigMap''), CreateRequest configmaps_ns1 cfg1,
      DiscoveryRequest ([], ''v1'', ''ConfigMap''), GetRequest configmaps_ns1 ''cfg1''] \<and>
   \<not> discovery_queries (requests (snd (ClusterOperations mem_env cfg1_manifest ''get'' ''ns1''
      (snd (ClusterOperations mem_env cfg1_manifest ''create'' ''ns1'' (start [])))))) \<le> 1"
  by (simp add: ClusterOperations_def applyRequest_def mapper_RESTMapping_def
      NewMemCacheClient_def dr_Create_def dr_Get_def log_Println_def mem_env_def mem_Decode_def
      mem_discovery_def cfg1_manifest_def discovery_queries_def mem_defs)

text \<open>
  C8 as amended. Type resolution is not memoized across calls: every call of
  \<^verbatim>\<open>ClusterOperations\<close> that gets as far as type resolution (the manifest converts and
  decodes, the clients are there) sends exactly one discovery query, whatever an earlier
  call resolved. Two calls in succession for manifests of the same kind and version send
  two.
\<close>

theorem ClusterOperations_discovery_query_per_call:
  assumes "GetDynamicAndDiscoveryClient env = Inr (discoveryClient, dynamicClient)"
    and "JSONToYAML env manifest1 = Inr yamlStr1" and "Decode env yamlStr1 = Inr (obj1, gvk)"
    and "JSONToYAML env manifest2 = Inr yamlStr2" and "Decode env yamlStr2 = Inr (obj2, gvk)"
  shows "discovery_queries (requests (snd (ClusterOperations env manifest1 verb1 ns1 st))) =
           discovery_queries (requests st) + 1
       \<and> discovery_queries (requests (snd (ClusterOperations env manifest2 verb2 ns2
             (snd (ClusterOperations env manifest1 verb1 ns1 st))))) =
           discovery_queries (requests st) + 2"
  by (simp add: ClusterOperations_one_query[OF assms(2) assms(1) assms(3)]
      ClusterOperations_one_query[OF assms(4) assms(1) assms(5)])

text \<open>The create and the get of the config map manifest, from a process that has sent nothing.\<close>

theorem ClusterOperations_discovery_query_per_call_witness:
  "discovery_queries (requests (snd (ClusterOperations mem_env cfg1_manifest ''create'' ''ns1''
      (start [])))) = 1 \<and>
   discovery_queries (requests (snd (ClusterOperations mem_env cfg1_manifest ''get'' ''ns1''
      (snd (ClusterOperations mem_env cfg1_manifest ''create'' ''ns1'' (start [])))))) = 2"
proof -
  have clients: "GetDynamicAndDiscoveryClient mem_env = Inr (mem_discovery, mem_client)"
    by (simp add: mem_env_def)
  have convert: "JSONToYAML mem_env cfg1_manifest = Inr cfg1_manifest"
    by (simp add: mem_env_def)
  have decode: "Decode mem_env cfg1_manifest = Inr (cfg1, ([], ''v1'', ''ConfigMap''))"
    by (simp add: mem_env_def mem_Decode_def)
  have none: "discovery_queries (requests (start ([] :: mem_cluster))) = 0"
    by (simp add: discovery_queries_def start_def)
  from ClusterOperations_discovery_query_per_call[OF clients convert decode convert decode,
      of "''create''" "''ns1''" "start []" "''get''" "''ns1''"] none
  show ?thesis
    by simp
qed

section \<open>C9: cluster-wide resources and the namespace argument\<close>

text \<open>
  C9. When the mapping found for the manifest's kind is not namespace-scoped (the scope of
  cluster-wide resources), \<^verbatim>\<open>dr\<close> is bound to the resource with no namespace, and two calls
  of \<^verbatim>\<open>ClusterOperations\<close> that differ only in the namespace string give the same result
  and leave the same state: the same handle, the same requests sent, the same cluster, the
  same log.
\<close>

theorem ClusterOperations_cluster_wide_ignores_namespace:
  assumes "JSONToYAML env manifest = Inr yamlStr"
    and "GetDynamicAndDiscoveryClient env = Inr (discoveryClient, dynamicClient)"
    and "Decode env yamlStr = Inr (obj, gvk)"
    and "discoveryClient gvk (cluster st) = (Inr mapping, c)"
    and "Scope mapping = RESTScopeNameRoot"
  shows "ClusterOperations env manifest requestType namespace1 st =
           ClusterOperations env manifest requestType namespace2 st
       \<and> dr (snd (ClusterOperations env manifest requestType namespace1 st)) =
           Some (ResourceClient (Resource mapping) None)"
proof
  from assms(5)
  show "ClusterOperations env manifest requestType namespace1 st =
      ClusterOperations env manifest requestType namespace2 st"
    by (simp add: ClusterOperations_resolved[OF assms(1-4) refl])
next
  from ClusterOperations_resolved_kept[OF assms(1-4) refl, of namespace1 requestType] assms(5)
  show "dr (snd (ClusterOperations env manifest requestType namespace1 st)) =
      Some (ResourceClient (Resource mapping) None)"
    by (simp add: kept_def)
qed

text \<open>
  A \<^verbatim>\<open>Namespace\<close> object, which the catalog of the in-memory cluster resolves to a
  cluster-wide resource, created with two different namespace arguments.
\<close>

theorem ClusterOperations_cluster_wide_ignores_namespace_witness:
  "ClusterOperations mem_env team1_manifest ''create'' ''ns1'' (start []) =
     ClusterOperations mem_env team1_manifest ''create'' ''ns2'' (start []) \<and>
   dr (snd (ClusterOperations mem_env team1_manifest ''create'' ''ns1'' (start []))) =
     Some (ResourceClient ([], ''v1'', ''namespaces'') None)"
proof -
  let ?mapping = "\<lparr>Resource = ([], ''v1'', ''namespaces''), Scope = RESTScopeNameRoot\<rparr>"
  have convert: "JSONToYAML mem_env team1_manifest = Inr team1_manifest"
    by (simp add: mem_env_def)
  have clients: "GetDynamicAndDiscoveryClient mem_env = Inr (mem_discovery, mem_client)"
    by (simp add: mem_env_def)
  have decode: "Decode mem_env team1_manifest = Inr (team1, ([], ''v1'', ''Namespace''))"
    by (simp add: mem_env_def mem_Decode_def team1_manifest_def cfg1_manifest_def)
  have found: "mem_discovery ([], ''v1'', ''Namespace'') (cluster (start [])) = (Inr ?mapping, [])"
    by (simp add: mem_discovery_def start_def)
  have scope: "Scope ?mapping = RESTScopeNameRoot"
    by simp
  have resource: "Resource ?mapping = ([], ''v1'', ''namespaces'')"
    by simp
  from ClusterOperations_cluster_wide_ignores_namespace[OF convert clients decode found scope,
      of "''create''" "''ns1''" "''ns2''"]
  show ?thesis
    unfolding resource .
qed

section \<open>C10: a verb that is none of the four\<close>

text \<open>
  C10. For every verb string outside create, update, get and delete, \<^verbatim>\<open>applyRequest\<close>
  returns a nil object and the error made from "Invalid Request" (the text
  \<^verbatim>\<open>err: Invalid Request\<close> and a newline), and the process is left exactly as it was: no
  request has been sent to the cluster, whatever \<^verbatim>\<open>dr\<close> holds.
\<close>

theorem applyRequest_invalid_verb:
  assumes "requestType \<notin> {''create'', ''update'', ''get'', ''delete''}"
  shows "applyRequest client requestType obj st =
           (Return (None, Some (Errorf (''err: Invalid Request'' @ [CHR 0x0A]))), st)"
  using assms by (simp add: applyRequest_def InvalidRequest_def)

theorem applyRequest_invalid_verb_witness:
  "''patch'' \<notin> {''create'', ''update'', ''get'', ''delete''} \<and>
   applyRequest mem_client ''patch'' cfg1 (bound configmaps_ns1 []) =
     (Return (None, Some (Errorf (''err: Invalid Request'' @ [CHR 0x0A]))), bound configmaps_ns1 []) \<and>
   requests (snd (applyRequest mem_client ''patch'' cfg1 (bound configmaps_ns1 []))) = []"
proof -
  have verb: "''patch'' \<notin> {''create'', ''update'', ''get'', ''delete''}"
    by simp
  from applyRequest_invalid_verb[OF verb, of mem_client cfg1 "bound configmaps_ns1 []"] verb
  show ?thesis
    by (simp add: bound_def)
qed

end
